theory Spec2Isabelle
  imports Main
begin

section \<open>The expression model of \<open>src/App.tsx\<close>\<close>

text \<open>
  The TypeScript source declares the expression tree as a union of four object types that
  are told apart by their \<open>type\<close> tag, and renders a tree to text with the recursive
  function \<open>buildSource\<close>. The embedding below keeps the source's names.

  \<^item> JavaScript strings are modelled as HOL strings. The compiler only concatenates them,
    so nothing depends on the character set.
  \<^item> A JavaScript \<open>number\<close> is a double. The tree is polymorphic in the type \<open>'n\<close> of
    numbers, and \<open>buildSource\<close> takes the function \<open>Number.prototype.toString\<close> as its
    first argument. \<open>int_toString\<close> below is that function on the integers of magnitude
    below \<open>10^21\<close>, where JavaScript prints the plain decimal digits.
  \<^item> \<open>console.assert\<close> writes its message to the console when its condition is false and
    returns normally. The console output of a call is the first component of its result.
  \<^item> \<open>throw\<close> is the \<open>Inl\<close> branch of the second component.
\<close>

datatype DataType = TNumber | TString | TBoolean

type_synonym OperationOperator = string

definition BooleanOperators :: "OperationOperator list" where
  "BooleanOperators = [''>'', ''>='', ''<'', ''<='', ''=='', ''!='', ''and'', ''or'']"

definition ArithmeticOperators :: "OperationOperator list" where
  "ArithmeticOperators = [''+'', ''-'', ''*'', ''/'']"

definition OperationOperators :: "OperationOperator list" where
  "OperationOperators = BooleanOperators @ ArithmeticOperators"

datatype 'n LiteralValue = VNumber 'n | VString string | VBoolean bool

text \<open>
  The four variants of \<open>Expression\<close>. The last constructor stands for an object whose
  \<open>type\<close> tag is none of the four: the static type excludes it, the \<open>default\<close> branch of
  \<open>buildSource\<close> is written for it (the editor's placeholder \<open>{ type: "empty" }\<close> is such
  an object, and is cast into operand lists).
\<close>

datatype 'n Expression =
    FunctionCall string "'n Expression list" DataType
  | Operation OperationOperator "'n Expression list" DataType
  | Literal "'n LiteralValue" DataType
  | Variable string DataType
  | Unrecognized string

record 'n RuleExpression =
  id_rule :: string
  priority :: 'n
  source :: string
  tree :: "'n Expression"

text \<open>
  What \<open>buildSource\<close> can throw: \<open>InvalidExpressionType\<close> is the
  \<open>Error("Invalid expression type")\<close> of the \<open>default\<close> branch; \<open>TypeError\<close> is what
  JavaScript raises for \<open>form[0].toUpperCase()\<close> when \<open>form\<close> is empty and \<open>form[0]\<close>
  is \<open>undefined\<close>.
\<close>

datatype error = InvalidExpressionType | TypeError

subsection \<open>Operator classification\<close>

definition isUnaryOperator :: "OperationOperator \<Rightarrow> bool" where
  "isUnaryOperator operator = (operator = ''-'')"

definition isArithmeticOperator :: "OperationOperator \<Rightarrow> bool" where
  "isArithmeticOperator operator = List.member [''+'', ''-'', ''*'', ''/''] operator"

definition isBooleanOperator :: "OperationOperator \<Rightarrow> bool" where
  "isBooleanOperator operator = (\<not> isArithmeticOperator operator)"

subsection \<open>Library functions of the host language\<close>

text \<open>\<open>Array.prototype.join\<close> on an array of strings.\<close>

fun join :: "string \<Rightarrow> string list \<Rightarrow> string" where
  "join sep [] = []"
| "join sep [x] = x"
| "join sep (x # y # ys) = x @ sep @ join sep (y # ys)"

text \<open>\<open>Array.prototype.slice(start, end)\<close> for indices that are not negative.\<close>

definition slice :: "nat \<Rightarrow> nat \<Rightarrow> 'a list \<Rightarrow> 'a list" where
  "slice start end xs = drop start (take end xs)"

text \<open>\<open>String.prototype.substring(start)\<close>.\<close>

definition substring :: "nat \<Rightarrow> string \<Rightarrow> string" where
  "substring start s = drop start s"

text \<open>\<open>String.prototype.toUpperCase\<close> on ASCII text: the letters a to z move to A to Z.\<close>

definition toUpperCase_char :: "char \<Rightarrow> char" where
  "toUpperCase_char c =
     (let k = (of_char c :: nat) in if 97 \<le> k \<and> k \<le> 122 then char_of (k - 32) else c)"

definition toUpperCase :: "string \<Rightarrow> string" where
  "toUpperCase s = map toUpperCase_char s"

text \<open>\<open>Boolean.prototype.toString\<close>.\<close>

definition boolean_toString :: "bool \<Rightarrow> string" where
  "boolean_toString b = (if b then ''true'' else ''false'')"

text \<open>
  \<open>Number.prototype.toString\<close> on an integer of magnitude below \<open>10^21\<close>: the decimal
  digits, after a minus sign for a negative number.
\<close>

fun nat_digits :: "nat \<Rightarrow> string" where
  "nat_digits n =
     (if n < 10 then [''0123456789'' ! n]
      else nat_digits (n div 10) @ [''0123456789'' ! (n mod 10)])"

definition int_toString :: "int \<Rightarrow> string" where
  "int_toString i = (if i < 0 then ''-'' @ nat_digits (nat (- i)) else nat_digits (nat i))"

text \<open>
  \<open>console.assert(condition, message)\<close>: what the call adds to the console. It never
  throws.
\<close>

definition console_assert :: "bool \<Rightarrow> string \<Rightarrow> string list" where
  "console_assert condition message = (if condition then [] else [message])"

text \<open>The double quote character.\<close>

definition dquote :: char where
  "dquote = CHR 0x22"

subsection \<open>The source compiler\<close>

lemma size_list_take_le: "size_list f (take n xs) \<le> size_list f xs"
proof (induction xs arbitrary: n)
  case Nil
  show ?case by simp
next
  case (Cons x xs)
  show ?case
  proof (cases n)
    case 0
    then show ?thesis by simp
  next
    case (Suc m)
    with Cons.IH [of m] show ?thesis by simp
  qed
qed

lemma size_list_slice_le: "size_list f (slice 0 n xs) \<le> size_list f xs"
  by (simp add: slice_def size_list_take_le)

text \<open>
  \<open>buildSource_map\<close> is \<open>xs.map(buildSource)\<close>: the elements are compiled from left to
  right, and the first one that throws ends the whole call.
\<close>

function buildSource :: "('n \<Rightarrow> string) \<Rightarrow> 'n Expression \<Rightarrow> string list \<times> (error + string)"
  and buildSource_map ::
    "('n \<Rightarrow> string) \<Rightarrow> 'n Expression list \<Rightarrow> string list \<times> (error + string list)"
where
  "buildSource toString (FunctionCall name args return) =
     (case buildSource_map toString args of
        (out, Inl err) \<Rightarrow> (out, Inl err)
      | (out, Inr args') \<Rightarrow> (out, Inr (name @ ''('' @ join '', '' args' @ '')'')))"
| "buildSource toString (Literal val return) =
     (case val of
        VString s \<Rightarrow> ([], Inr ([dquote] @ s @ [dquote]))
      | VNumber n \<Rightarrow> ([], Inr (toString n))
      | VBoolean b \<Rightarrow>
          (let form = boolean_toString b in
           case form of
             [] \<Rightarrow> ([], Inl TypeError)
           | c # _ \<Rightarrow> ([], Inr (toUpperCase [c] @ substring 1 form))))"
| "buildSource toString (Operation operator operands' return) =
     (case buildSource_map toString (slice 0 2 operands') of
        (out, Inl err) \<Rightarrow> (out, Inl err)
      | (out, Inr operands) \<Rightarrow>
          (let isUnary = isUnaryOperator operator in
           if isUnary then
             (out @ console_assert (length operands = 1) ''Unary operation requires one operand'',
              Inr (''('' @ operator @ (case operands of [] \<Rightarrow> ''undefined'' | x # _ \<Rightarrow> x) @ '')''))
           else
             (out @ console_assert (length operands = 2) ''Binary operation requires two operands'',
              Inr (''('' @ join ('' '' @ operator @ '' '') operands @ '')''))))"
| "buildSource toString (Variable name return) = ([], Inr name)"
| "buildSource toString (Unrecognized tag) = ([], Inl InvalidExpressionType)"
| "buildSource_map toString [] = ([], Inr [])"
| "buildSource_map toString (e # es) =
     (case buildSource toString e of
        (out, Inl err) \<Rightarrow> (out, Inl err)
      | (out, Inr s) \<Rightarrow>
          (case buildSource_map toString es of
             (out', Inl err) \<Rightarrow> (out @ out', Inl err)
           | (out', Inr ss) \<Rightarrow> (out @ out', Inr (s # ss))))"
  by pat_completeness auto
termination
proof (relation "measure (\<lambda>x. case x of Inl (_, e) \<Rightarrow> size e | Inr (_, es) \<Rightarrow> size_list size es)")
  show "wf (measure (\<lambda>x. case x of
          Inl (_ :: 'n \<Rightarrow> string, e :: 'n Expression) \<Rightarrow> size e
        | Inr (_ :: 'n \<Rightarrow> string, es) \<Rightarrow> size_list size es))"
    by simp
next
  fix toString :: "'n \<Rightarrow> string" and operator :: string
    and operands' :: "'n Expression list" and return :: DataType
  have "size_list size (slice 0 2 operands') \<le> size_list size operands'"
    by (rule size_list_slice_le)
  then show "(Inr (toString, slice 0 2 operands'), Inl (toString, Operation operator operands' return))
      \<in> measure (\<lambda>x. case x of Inl (_, e) \<Rightarrow> size e | Inr (_, es) \<Rightarrow> size_list size es)"
    by simp
qed simp_all

subsection \<open>Rule assembly and the constructor helpers\<close>

text \<open>
  The second parameter of \<open>buildRuleExpression\<close> is the object \<open>{ id, priority }\<close>, here
  the pair of the two. The call of \<open>buildSource\<close> comes first: when it throws, no record is
  built.
\<close>

definition buildRuleExpression ::
  "('n \<Rightarrow> string) \<Rightarrow> 'n Expression \<Rightarrow> string \<times> 'n \<Rightarrow> string list \<times> (error + 'n RuleExpression)"
where
  "buildRuleExpression toString e opts =
     (case opts of (id', priority') \<Rightarrow>
        (case buildSource toString e of
           (out, Inl err) \<Rightarrow> (out, Inl err)
         | (out, Inr src) \<Rightarrow>
             (out, Inr \<lparr>id_rule = id', priority = priority', source = src, tree = e\<rparr>)))"

definition createLiteral :: "'n LiteralValue \<Rightarrow> DataType \<Rightarrow> 'n Expression" where
  "createLiteral val returnType = Literal val returnType"

definition createVariable :: "string \<Rightarrow> DataType \<Rightarrow> 'n Expression" where
  "createVariable name returnType = Variable name returnType"

definition createFunction :: "string \<Rightarrow> 'n Expression list \<Rightarrow> DataType \<Rightarrow> 'n Expression" where
  "createFunction name args returnType = FunctionCall name args returnType"

definition createOperation :: "OperationOperator \<Rightarrow> 'n Expression list \<Rightarrow> 'n Expression" where
  "createOperation operator operands =
     Operation operator operands (if isBooleanOperator operator then TBoolean else TNumber)"

subsection \<open>Notions used to state the properties\<close>

text \<open>
  A tree is \<open>recognized\<close> when every node carries one of the four tags that the
  \<open>switch\<close> of \<open>buildSource\<close> handles.
\<close>

fun recognized :: "'n Expression \<Rightarrow> bool" where
  "recognized (FunctionCall name args return) = list_all recognized args"
| "recognized (Operation operator operands return) = list_all recognized operands"
| "recognized (Literal val return) = True"
| "recognized (Variable name return) = True"
| "recognized (Unrecognized tag) = False"

lemma size_slice_member: "x \<in> set (slice 0 n xs) \<Longrightarrow> size x < Suc (size_list size xs)"
proof -
  assume "x \<in> set (slice 0 n xs)"
  then have "x \<in> set xs" by (auto simp: slice_def dest: in_set_takeD)
  then have "size x \<le> size_list size xs" by (rule size_list_estimation') simp
  then show ?thesis by simp
qed

text \<open>
  \<open>skeleton\<close> keeps what two trees must share to differ only in their \<open>return\<close>
  fields and in the operands of an operation past index 1: every \<open>return\<close> field is
  overwritten with one fixed value and the operands past the second are dropped.
\<close>

function skeleton :: "'n Expression \<Rightarrow> 'n Expression" where
  "skeleton (FunctionCall name args return) = FunctionCall name (map skeleton args) TNumber"
| "skeleton (Operation operator operands return) =
     Operation operator (map skeleton (slice 0 2 operands)) TNumber"
| "skeleton (Literal val return) = Literal val TNumber"
| "skeleton (Variable name return) = Variable name TNumber"
| "skeleton (Unrecognized tag) = Unrecognized tag"
  by pat_completeness auto
termination
  by (relation "measure size") (auto simp: less_Suc_eq_le size_list_estimation' dest: size_slice_member)

text \<open>The number of nodes of a tree.\<close>

fun nodes :: "'n Expression \<Rightarrow> nat" where
  "nodes (FunctionCall name args return) = Suc (sum_list (map nodes args))"
| "nodes (Operation operator operands return) = Suc (sum_list (map nodes operands))"
| "nodes (Literal val return) = 1"
| "nodes (Variable name return) = 1"
| "nodes (Unrecognized tag) = 1"

text \<open>
  \<open>buildSource\<close> with a bound on the depth of the recursion: each call of
  \<open>buildSource\<close> takes one unit of \<open>fuel\<close> and hands the rest to the calls it makes;
  \<open>None\<close> is a call that would need more.
\<close>

fun buildSource_fuel ::
    "nat \<Rightarrow> ('n \<Rightarrow> string) \<Rightarrow> 'n Expression \<Rightarrow> (string list \<times> (error + string)) option"
  and buildSource_fuel_map ::
    "nat \<Rightarrow> ('n \<Rightarrow> string) \<Rightarrow> 'n Expression list \<Rightarrow> (string list \<times> (error + string list)) option"
where
  "buildSource_fuel 0 toString e = None"
| "buildSource_fuel (Suc fuel) toString (FunctionCall name args return) =
     (case buildSource_fuel_map fuel toString args of
        None \<Rightarrow> None
      | Some (out, Inl err) \<Rightarrow> Some (out, Inl err)
      | Some (out, Inr args') \<Rightarrow> Some (out, Inr (name @ ''('' @ join '', '' args' @ '')'')))"
| "buildSource_fuel (Suc fuel) toString (Literal val return) =
     (case val of
        VString s \<Rightarrow> Some ([], Inr ([dquote] @ s @ [dquote]))
      | VNumber n \<Rightarrow> Some ([], Inr (toString n))
      | VBoolean b \<Rightarrow>
          (let form = boolean_toString b in
           case form of
             [] \<Rightarrow> Some ([], Inl TypeError)
           | c # _ \<Rightarrow> Some ([], Inr (toUpperCase [c] @ substring 1 form))))"
| "buildSource_fuel (Suc fuel) toString (Operation operator operands' return) =
     (case buildSource_fuel_map fuel toString (slice 0 2 operands') of
        None \<Rightarrow> None
      | Some (out, Inl err) \<Rightarrow> Some (out, Inl err)
      | Some (out, Inr operands) \<Rightarrow>
          (let isUnary = isUnaryOperator operator in
           if isUnary then
             Some (out @ console_assert (length operands = 1) ''Unary operation requires one operand'',
              Inr (''('' @ operator @ (case operands of [] \<Rightarrow> ''undefined'' | x # _ \<Rightarrow> x) @ '')''))
           else
             Some (out @ console_assert (length operands = 2) ''Binary operation requires two operands'',
              Inr (''('' @ join ('' '' @ operator @ '' '') operands @ '')''))))"
| "buildSource_fuel (Suc fuel) toString (Variable name return) = Some ([], Inr name)"
| "buildSource_fuel (Suc fuel) toString (Unrecognized tag) = Some ([], Inl InvalidExpressionType)"
| "buildSource_fuel_map fuel toString [] = Some ([], Inr [])"
| "buildSource_fuel_map fuel toString (e # es) =
     (case buildSource_fuel fuel toString e of
        None \<Rightarrow> None
      | Some (out, Inl err) \<Rightarrow> Some (out, Inl err)
      | Some (out, Inr s) \<Rightarrow>
          (case buildSource_fuel_map fuel toString es of
             None \<Rightarrow> None
           | Some (out', Inl err) \<Rightarrow> Some (out @ out', Inl err)
           | Some (out', Inr ss) \<Rightarrow> Some (out @ out', Inr (s # ss))))"

section \<open>Auxiliary facts\<close>

lemma buildSource_map_Inr_iff:
  "snd (buildSource_map toString es) = Inr ss \<longleftrightarrow>
   list_all2 (\<lambda>e s. snd (buildSource toString e) = Inr s) es ss"
proof (induction es arbitrary: ss)
  case Nil
  show ?case by auto
next
  case (Cons e es)
  show ?case
  proof (cases ss)
    case Nil
    then show ?thesis by (auto split: prod.splits sum.splits)
  next
    case (Cons s ss')
    with Cons.IH [of ss'] show ?thesis
      by (auto split: prod.splits sum.splits)
  qed
qed

lemma buildSource_map_console:
  "snd (buildSource_map toString es) = Inr ss \<Longrightarrow>
   fst (buildSource_map toString es) = concat (map (\<lambda>e. fst (buildSource toString e)) es)"
  by (induction es arbitrary: ss) (auto split: prod.splits sum.splits)

lemma buildSource_map_eq:
  assumes "list_all2 (\<lambda>e s. snd (buildSource toString e) = Inr s) es ss"
  shows "buildSource_map toString es =
    (concat (map (\<lambda>e. fst (buildSource toString e)) es), Inr ss)"
proof -
  from assms have s: "snd (buildSource_map toString es) = Inr ss"
    by (simp add: buildSource_map_Inr_iff)
  from buildSource_map_console [OF s] s show ?thesis
    by (simp add: prod_eq_iff)
qed

lemma list_all_slice: "list_all P xs \<Longrightarrow> list_all P (slice 0 n xs)"
  by (auto simp: slice_def list_all_iff dest: in_set_takeD)

lemma recognized_returns:
  "recognized e \<Longrightarrow> \<exists>out s. buildSource toString e = (out, Inr s)"
  "list_all recognized es \<Longrightarrow> \<exists>out ss. buildSource_map toString es = (out, Inr ss)"
proof (induction toString e and toString es rule: buildSource_buildSource_map.induct)
  case (1 toString name args return)
  then show ?case by auto
next
  case (2 toString val return)
  show ?case by (cases val) (auto simp: boolean_toString_def)
next
  case (3 toString operator operands' return)
  then have "\<exists>out ss. buildSource_map toString (slice 0 2 operands') = (out, Inr ss)"
    by (simp add: list_all_slice)
  then show ?case by (auto simp: Let_def)
next
  case (4 toString name return)
  show ?case by simp
next
  case (5 toString tag)
  then show ?case by simp
next
  case (6 toString)
  show ?case by simp
next
  case (7 toString e es)
  then obtain out s where e: "buildSource toString e = (out, Inr s)" by auto
  from 7 have "list_all recognized es" by simp
  with "7.IH"(2) [OF e [symmetric] refl] obtain out' ss
    where "buildSource_map toString es = (out', Inr ss)" by blast
  with e show ?case by simp
qed

lemma throws_only_invalid:
  "buildSource toString e = (out, Inl err) \<Longrightarrow> err = InvalidExpressionType"
  "buildSource_map toString es = (out', Inl err') \<Longrightarrow> err' = InvalidExpressionType"
proof (induction toString e and toString es arbitrary: out err and out' err'
    rule: buildSource_buildSource_map.induct)
  case (1 toString name args return)
  then show ?case by (auto split: prod.splits sum.splits)
next
  case (2 toString val return)
  then show ?case by (cases val) (auto simp: boolean_toString_def split: if_splits)
next
  case (3 toString operator operands' return)
  then show ?case by (auto simp: Let_def split: prod.splits sum.splits if_splits)
next
  case (4 toString name return)
  then show ?case by simp
next
  case (5 toString tag)
  then show ?case by simp
next
  case (6 toString)
  then show ?case by simp
next
  case (7 toString e es)
  then show ?case by (auto split: prod.splits sum.splits)
qed

lemma skeleton_same:
  "buildSource toString (skeleton e) = buildSource toString e"
  "buildSource_map toString (map skeleton es) = buildSource_map toString es"
proof (induction toString e and toString es rule: buildSource_buildSource_map.induct)
  case (3 toString operator operands' return)
  have "slice 0 2 (map skeleton (slice 0 2 operands')) = map skeleton (slice 0 2 operands')"
    by (simp add: slice_def)
  with 3 show ?case by simp
next
  case (7 toString e es)
  show ?case
  proof (cases "buildSource toString e")
    case (Pair out r)
    show ?thesis
    proof (cases r)
      case (Inl err)
      with Pair "7.IH"(1) show ?thesis by simp
    next
      case (Inr s)
      with Pair have "(out, Inr s) = buildSource toString e" by simp
      from "7.IH"(2) [OF this refl] Pair Inr "7.IH"(1) show ?thesis by simp
    qed
  qed
qed simp_all

lemma member_nodes_le: "e \<in> set es \<Longrightarrow> nodes e \<le> sum_list (map nodes es)"
  by (induction es) auto

lemma fuel_enough:
  "nodes e \<le> fuel \<Longrightarrow> buildSource_fuel fuel toString e = Some (buildSource toString e)"
  "(\<forall>e \<in> set es. nodes e \<le> fuel) \<Longrightarrow>
     buildSource_fuel_map fuel toString es = Some (buildSource_map toString es)"
proof (induction fuel toString e and fuel toString es rule: buildSource_fuel_buildSource_fuel_map.induct)
  case (1 toString e)
  then show ?case by (cases e) simp_all
next
  case (2 fuel toString name args return)
  then have "\<forall>e \<in> set args. nodes e \<le> fuel"
    using member_nodes_le [of _ args] by fastforce
  with 2 show ?case by (simp split: prod.splits sum.splits)
next
  case (3 fuel toString val return)
  show ?case by (cases val) (simp_all add: Let_def split: list.splits)
next
  case (4 fuel toString operator operands' return)
  have "\<forall>e \<in> set (slice 0 2 operands'). nodes e \<le> fuel"
  proof
    fix e assume "e \<in> set (slice 0 2 operands')"
    then have "e \<in> set operands'" by (auto simp: slice_def dest: in_set_takeD)
    from member_nodes_le [OF this] 4(2) show "nodes e \<le> fuel" by simp
  qed
  with 4 show ?case by (simp add: Let_def split: prod.splits sum.splits)
next
  case (5 fuel toString name return)
  show ?case by simp
next
  case (6 fuel toString tag)
  show ?case by simp
next
  case (7 fuel toString)
  show ?case by simp
next
  case (8 fuel toString e es)
  then have e: "buildSource_fuel fuel toString e = Some (buildSource toString e)" by simp
  show ?case
  proof (cases "buildSource toString e")
    case (Pair out r)
    show ?thesis
    proof (cases r)
      case (Inl err)
      with Pair e show ?thesis by simp
    next
      case (Inr s)
      from 8(3) have "\<forall>e \<in> set es. nodes e \<le> fuel" by simp
      with "8.IH"(2) [OF e [unfolded Pair] refl Inr]
      have "buildSource_fuel_map fuel toString es = Some (buildSource_map toString es)" .
      with Pair Inr e show ?thesis by (simp split: prod.splits sum.splits)
    qed
  qed
qed

lemma toUpperCase_char_t: "toUpperCase_char (CHR ''t'') = CHR ''T''"
  by code_simp

lemma toUpperCase_char_f: "toUpperCase_char (CHR ''f'') = CHR ''F''"
  by code_simp

lemma OperationOperators_distinct: "distinct OperationOperators"
  by (simp add: OperationOperators_def BooleanOperators_def ArithmeticOperators_def)

lemma OperationOperators_length: "length OperationOperators = 12"
  by (simp add: OperationOperators_def BooleanOperators_def ArithmeticOperators_def)

lemma join_Cons: "join sep (x # xs) = x @ concat (map (\<lambda>y. sep @ y) xs)"
  by (induction sep xs arbitrary: x rule: join.induct) simp_all

text \<open>One unit of fuel is not enough for an operation that has an operand.\<close>

lemma fuel_too_small:
  "buildSource_fuel 1 toString (Operation operator (a # operands) return) = None"
  by (simp add: slice_def)

section \<open>The properties\<close>

subsection \<open>Literals\<close>

text \<open>
  Claim C4. A literal with a string value renders as the value between two double quotes,
  with no character of the value changed or escaped; a literal with a number value renders
  as what \<open>toString\<close> gives for the number (the decimal digits for the integers
  \<open>10\<close> and \<open>-5\<close>); a literal with a boolean value renders as \<open>True\<close> or \<open>False\<close>.
  Nothing is written to the console, and the \<open>return\<close> field plays no part.
\<close>

theorem literal_rendering:
  "buildSource toString (Literal (VString s) return) = ([], Inr ([dquote] @ s @ [dquote])) \<and>
   buildSource toString (Literal (VNumber n) return) = ([], Inr (toString n)) \<and>
   buildSource toString (Literal (VBoolean True) return) = ([], Inr ''True'') \<and>
   buildSource toString (Literal (VBoolean False) return) = ([], Inr ''False'') \<and>
   buildSource int_toString (Literal (VNumber 10) return) = ([], Inr ''10'') \<and>
   buildSource int_toString (Literal (VNumber (- 5)) return) = ([], Inr ''-5'')"
  by (simp add: boolean_toString_def toUpperCase_def substring_def int_toString_def
      toUpperCase_char_t toUpperCase_char_f)

subsection \<open>Operators\<close>

text \<open>
  Claim C6, as amended. The operator type has twelve symbols. On each of them exactly one of
  \<open>isArithmeticOperator\<close> and \<open>isBooleanOperator\<close> holds, and \<open>isUnaryOperator\<close> holds
  exactly for the minus sign; the four symbols of \<open>ArithmeticOperators\<close> are arithmetic and
  the eight of \<open>BooleanOperators\<close> are boolean.
\<close>

theorem operator_classification:
  "card (set OperationOperators) = 12 \<and>
   (\<forall>op \<in> set OperationOperators.
      (isArithmeticOperator op \<noteq> isBooleanOperator op) \<and> (isUnaryOperator op \<longleftrightarrow> op = ''-'')) \<and>
   (\<forall>op \<in> set ArithmeticOperators. isArithmeticOperator op \<and> \<not> isBooleanOperator op) \<and>
   (\<forall>op \<in> set BooleanOperators. isBooleanOperator op \<and> \<not> isArithmeticOperator op)"
proof -
  have c: "card (set OperationOperators) = 12"
    using distinct_card [OF OperationOperators_distinct] by (simp add: OperationOperators_length)
  have x: "\<forall>op \<in> set OperationOperators.
      (isArithmeticOperator op \<noteq> isBooleanOperator op) \<and> (isUnaryOperator op \<longleftrightarrow> op = ''-'')"
    by (simp add: isBooleanOperator_def isUnaryOperator_def)
  have a: "\<forall>op \<in> set ArithmeticOperators. isArithmeticOperator op \<and> \<not> isBooleanOperator op"
    by (simp add: ArithmeticOperators_def isBooleanOperator_def isArithmeticOperator_def)
  have b: "\<forall>op \<in> set BooleanOperators. isBooleanOperator op \<and> \<not> isArithmeticOperator op"
    by (simp add: BooleanOperators_def isBooleanOperator_def isArithmeticOperator_def)
  from c x a b show ?thesis by blast
qed

theorem operator_classification_witness:
  "''-'' \<in> set OperationOperators \<and> isArithmeticOperator ''-'' \<and> \<not> isBooleanOperator ''-'' \<and>
   isUnaryOperator ''-'' \<and>
   ''>='' \<in> set OperationOperators \<and> isBooleanOperator ''>='' \<and> \<not> isArithmeticOperator ''>='' \<and>
   \<not> isUnaryOperator ''>=''"
proof -
  have m: "''-'' \<in> set OperationOperators" "''>='' \<in> set OperationOperators"
    "''-'' \<in> set ArithmeticOperators" "''>='' \<in> set BooleanOperators"
    by (simp_all add: OperationOperators_def BooleanOperators_def ArithmeticOperators_def)
  from operator_classification m show ?thesis by fastforce
qed

text \<open>
  Claim C6 as it is written speaks of nine recognized symbols. The operator type lists
  twelve different ones.
\<close>

theorem operator_count_counterexample:
  "length OperationOperators = 12 \<and> distinct OperationOperators \<and> card (set OperationOperators) \<noteq> 9"
  using distinct_card [OF OperationOperators_distinct] OperationOperators_distinct
  by (simp add: OperationOperators_length)

text \<open>
  Claim C7. \<open>createOperation\<close> takes the operator and the operands only and computes the
  \<open>return\<close> field: \<open>TBoolean\<close> for each of the comparison and logical operators,
  \<open>TNumber\<close> for each of the arithmetic operators.
\<close>

theorem createOperation_return:
  "(\<forall>op \<in> set BooleanOperators. createOperation op operands = Operation op operands TBoolean) \<and>
   (\<forall>op \<in> set ArithmeticOperators. createOperation op operands = Operation op operands TNumber)"
  by (simp add: createOperation_def BooleanOperators_def ArithmeticOperators_def
      isBooleanOperator_def isArithmeticOperator_def)

theorem createOperation_return_witness:
  "createOperation ''and'' [Variable ''a'' TBoolean, Variable ''b'' TBoolean]
     = Operation ''and'' [Variable ''a'' TBoolean, Variable ''b'' TBoolean] TBoolean \<and>
   createOperation ''/'' [Variable ''x'' TNumber, Literal (VNumber (2::int)) TNumber]
     = Operation ''/'' [Variable ''x'' TNumber, Literal (VNumber 2) TNumber] TNumber"
proof -
  have m: "''and'' \<in> set BooleanOperators" "''/'' \<in> set ArithmeticOperators"
    by (simp_all add: BooleanOperators_def ArithmeticOperators_def)
  from createOperation_return [of "[Variable ''a'' TBoolean, Variable ''b'' TBoolean]"]
    createOperation_return [of "[Variable ''x'' TNumber, Literal (VNumber (2::int)) TNumber]"] m
  show ?thesis by blast
qed

subsection \<open>Operations\<close>

text \<open>
  Claim C3. Let the operands \<open>a\<close> and \<open>b\<close> compile to the texts \<open>sa\<close> and \<open>sb\<close>. An
  operation with a unary operator and the one operand \<open>a\<close> compiles to an opening
  parenthesis, the operator, \<open>sa\<close> and a closing parenthesis, with no space. An operation
  with any other operator and the two operands \<open>a\<close> and \<open>b\<close> compiles to \<open>sa\<close>, a space, the
  operator, a space and \<open>sb\<close>, between parentheses. In both cases the console receives what
  the operands wrote and nothing more. The sum of the literals 1 and 2 compiles to
  \<open>(1 + 2)\<close>, the negation of the literal 5 to \<open>(-5)\<close>.
\<close>

theorem operation_rendering:
  assumes "buildSource toString a = (out_a, Inr sa)"
    and "buildSource toString b = (out_b, Inr sb)"
  shows "(isUnaryOperator operator \<longrightarrow>
           buildSource toString (Operation operator [a] return) =
             (out_a, Inr (''('' @ operator @ sa @ '')''))) \<and>
         (\<not> isUnaryOperator operator \<longrightarrow>
           buildSource toString (Operation operator [a, b] return) =
             (out_a @ out_b, Inr (''('' @ sa @ '' '' @ operator @ '' '' @ sb @ '')''))) \<and>
         buildSource int_toString
           (createOperation ''+'' [createLiteral (VNumber 1) TNumber, createLiteral (VNumber 2) TNumber]) =
             ([], Inr ''(1 + 2)'') \<and>
         buildSource int_toString (createOperation ''-'' [createLiteral (VNumber 5) TNumber]) =
             ([], Inr ''(-5)'')"
proof -
  have u: "isUnaryOperator operator \<longrightarrow>
           buildSource toString (Operation operator [a] return) =
             (out_a, Inr (''('' @ operator @ sa @ '')''))"
    using assms(1) by (simp add: slice_def console_assert_def)
  have bin: "\<not> isUnaryOperator operator \<longrightarrow>
           buildSource toString (Operation operator [a, b] return) =
             (out_a @ out_b, Inr (''('' @ sa @ '' '' @ operator @ '' '' @ sb @ '')''))"
    using assms by (simp add: slice_def console_assert_def)
  have e1: "buildSource int_toString
           (createOperation ''+'' [createLiteral (VNumber 1) TNumber, createLiteral (VNumber 2) TNumber]) =
             ([], Inr ''(1 + 2)'')"
    by (simp add: createOperation_def createLiteral_def slice_def isUnaryOperator_def
        console_assert_def int_toString_def)
  have e2: "buildSource int_toString (createOperation ''-'' [createLiteral (VNumber 5) TNumber]) =
             ([], Inr ''(-5)'')"
    by (simp add: createOperation_def createLiteral_def slice_def isUnaryOperator_def
        console_assert_def int_toString_def)
  from u bin e1 e2 show ?thesis by blast
qed

theorem operation_rendering_witness:
  "buildSource int_toString (Operation ''-'' [Variable ''price'' TNumber] TNumber) =
     ([], Inr ''(-price)'') \<and>
   buildSource int_toString
     (Operation ''>='' [Variable ''price'' TNumber, Literal (VNumber 10) TNumber] TBoolean) =
     ([], Inr ''(price >= 10)'')"
proof -
  have a: "buildSource int_toString (Variable ''price'' TNumber) = ([], Inr ''price'')"
    by simp
  have b: "buildSource int_toString (Literal (VNumber 10) TNumber) = ([], Inr ''10'')"
    by (simp add: int_toString_def)
  from operation_rendering [OF a b, of "''-''" TNumber]
    operation_rendering [OF a b, of "''>=''" TBoolean]
  show ?thesis by (simp add: isUnaryOperator_def)
qed

text \<open>
  Claim C2 asks for an error when the number of operands disagrees with the operator. The
  source checks the number with \<open>console.assert\<close>, which reports and goes on: a sum with
  one operand and a negation with two operands both compile to a text, and the message of
  the failed assertion is on the console.
\<close>

theorem arity_mismatch_renders:
  "buildSource int_toString (createOperation ''+'' [createLiteral (VNumber 1) TNumber]) =
     ([''Binary operation requires two operands''], Inr ''(1)'') \<and>
   buildSource int_toString
     (createOperation ''-'' [createLiteral (VNumber 1) TNumber, createLiteral (VNumber 2) TNumber]) =
     ([''Unary operation requires one operand''], Inr ''(-1)'')"
  by (simp add: createOperation_def createLiteral_def slice_def isUnaryOperator_def
      console_assert_def int_toString_def)

text \<open>
  Claim C9. \<open>buildSource\<close> returns a text for every tree all of whose nodes are
  recognized. When it throws, the error is the one of the \<open>default\<close> branch and the tree has
  a node that is not recognized. A failed \<open>console.assert\<close> does not stop the call: with
  the operand \<open>a\<close> compiling to \<open>sa\<close>, an operation with a binary operator and the single
  operand \<open>a\<close> compiles to \<open>sa\<close> between parentheses, without the operator, and an operation
  with a unary operator and the two operands \<open>a\<close> and \<open>b\<close> compiles to the operator and \<open>sa\<close>
  between parentheses, without \<open>b\<close>; the message of the assertion is the last line on the
  console.
\<close>

theorem buildSource_never_raises:
  assumes "buildSource toString a = (out_a, Inr sa)"
    and "buildSource toString b = (out_b, Inr sb)"
  shows "(recognized e \<longrightarrow> (\<exists>out s. buildSource toString e = (out, Inr s))) \<and>
         (\<forall>out err. buildSource toString e = (out, Inl err) \<longrightarrow>
            err = InvalidExpressionType \<and> \<not> recognized e) \<and>
         (\<not> isUnaryOperator operator \<longrightarrow>
            buildSource toString (Operation operator [a] return) =
              (out_a @ [''Binary operation requires two operands''], Inr (''('' @ sa @ '')''))) \<and>
         (isUnaryOperator operator \<longrightarrow>
            buildSource toString (Operation operator [a, b] return) =
              (out_a @ out_b @ [''Unary operation requires one operand''],
               Inr (''('' @ operator @ sa @ '')'')))"
proof -
  have r: "recognized e \<longrightarrow> (\<exists>out s. buildSource toString e = (out, Inr s))"
    using recognized_returns(1) [of e toString] by blast
  have t: "\<forall>out err. buildSource toString e = (out, Inl err) \<longrightarrow>
            err = InvalidExpressionType \<and> \<not> recognized e"
  proof (intro allI impI)
    fix out err
    assume h: "buildSource toString e = (out, Inl err)"
    from throws_only_invalid(1) [OF h] have 1: "err = InvalidExpressionType" .
    from h recognized_returns(1) [of e toString] have 2: "\<not> recognized e" by auto
    from 1 2 show "err = InvalidExpressionType \<and> \<not> recognized e" ..
  qed
  have bin: "\<not> isUnaryOperator operator \<longrightarrow>
            buildSource toString (Operation operator [a] return) =
              (out_a @ [''Binary operation requires two operands''], Inr (''('' @ sa @ '')''))"
    using assms(1) by (simp add: slice_def console_assert_def)
  have u: "isUnaryOperator operator \<longrightarrow>
            buildSource toString (Operation operator [a, b] return) =
              (out_a @ out_b @ [''Unary operation requires one operand''],
               Inr (''('' @ operator @ sa @ '')''))"
    using assms by (simp add: slice_def console_assert_def)
  from r t bin u show ?thesis by blast
qed

theorem buildSource_never_raises_witness:
  "buildSource int_toString (Operation ''-'' [] TNumber) =
     ([''Unary operation requires one operand''], Inr ''(-undefined)'') \<and>
   buildSource int_toString (Operation ''+'' [Variable ''x'' TNumber, Unrecognized ''empty''] TNumber) =
     ([], Inl InvalidExpressionType) \<and>
   \<not> recognized (Operation ''+'' [Variable ''x'' TNumber, Unrecognized ''empty''] TNumber :: int Expression) \<and>
   buildSource int_toString (Operation ''+'' [Variable ''x'' TNumber] TNumber) =
     ([''Binary operation requires two operands''], Inr ''(x)'') \<and>
   buildSource int_toString (Operation ''-'' [Variable ''x'' TNumber, Literal (VNumber 2) TNumber] TNumber) =
     ([''Unary operation requires one operand''], Inr ''(-x)'')"
proof -
  have a: "buildSource int_toString (Variable ''x'' TNumber) = ([], Inr ''x'')"
    by simp
  have b: "buildSource int_toString (Literal (VNumber 2) TNumber) = ([], Inr ''2'')"
    by (simp add: int_toString_def)
  have r: "recognized (Operation ''-'' [] TNumber :: int Expression)"
    by simp
  have z: "buildSource int_toString (Operation ''-'' [] TNumber) =
     ([''Unary operation requires one operand''], Inr ''(-undefined)'')"
    by (simp add: slice_def isUnaryOperator_def console_assert_def)
  have t: "buildSource int_toString
      (Operation ''+'' [Variable ''x'' TNumber, Unrecognized ''empty''] TNumber) =
     ([], Inl InvalidExpressionType)"
    by (simp add: slice_def)
  from buildSource_never_raises [OF a b, of "Operation ''-'' [] TNumber" "''+''" TNumber]
    buildSource_never_raises [OF a b,
      of "Operation ''+'' [Variable ''x'' TNumber, Unrecognized ''empty''] TNumber" "''-''" TNumber]
    r z t
  show ?thesis by (simp add: isUnaryOperator_def)
qed

subsection \<open>Function calls\<close>

text \<open>
  Claim C5. When the arguments of a function call compile, one by one, to the texts
  \<open>ss\<close>, the call compiles to its name followed by the texts between parentheses, joined
  by a comma and a space (\<open>join\<close> puts the separator before every text but the first); the
  console receives what the arguments wrote, in their order. A call with no argument
  compiles to the name followed by \<open>()\<close>.
\<close>

theorem function_call_rendering:
  assumes "list_all2 (\<lambda>a s. snd (buildSource toString a) = Inr s) args ss"
  shows "buildSource toString (FunctionCall name args return) =
           (concat (map (\<lambda>a. fst (buildSource toString a)) args),
            Inr (name @ ''('' @ join '', '' ss @ '')'')) \<and>
         join '', '' (s # ss) = s @ concat (map (\<lambda>y. '', '' @ y) ss) \<and>
         buildSource toString (FunctionCall name [] return) = ([], Inr (name @ ''()''))"
  using buildSource_map_eq [OF assms] by (simp add: join_Cons)

theorem function_call_rendering_witness:
  "buildSource int_toString
     (createFunction ''avg''
        [createOperation ''+'' [createVariable ''price'' TNumber, createLiteral (VNumber 10) TNumber],
         createLiteral (VString ''x'') TString] TNumber) =
     ([], Inr (''avg((price + 10), '' @ [dquote] @ ''x'' @ [dquote] @ '')''))"
proof -
  have h: "list_all2 (\<lambda>a s. snd (buildSource int_toString a) = Inr s)
      [createOperation ''+'' [createVariable ''price'' TNumber, createLiteral (VNumber 10) TNumber],
       createLiteral (VString ''x'') TString]
      [''(price + 10)'', [dquote] @ ''x'' @ [dquote]]"
    by (simp add: createOperation_def createLiteral_def createVariable_def slice_def
        isUnaryOperator_def console_assert_def int_toString_def)
  from function_call_rendering [OF h, of "''avg''" TNumber] show ?thesis
    by (simp add: createFunction_def createOperation_def createLiteral_def createVariable_def
        slice_def isUnaryOperator_def console_assert_def int_toString_def)
qed

subsection \<open>Rule assembly\<close>

text \<open>
  Claim C1. For a tree whose nodes are all recognized, and any id and priority,
  \<open>buildRuleExpression\<close> returns the record of the id, the priority, the text that
  \<open>buildSource\<close> gives for the tree, and the tree itself as it was passed.
\<close>

theorem buildRuleExpression_record:
  assumes "recognized e"
  shows "\<exists>out src. buildSource toString e = (out, Inr src) \<and>
           buildRuleExpression toString e (i, p) =
             (out, Inr \<lparr>id_rule = i, priority = p, source = src, tree = e\<rparr>)"
proof -
  from recognized_returns(1) [OF assms] obtain out src
    where "buildSource toString e = (out, Inr src)" by blast
  then show ?thesis by (simp add: buildRuleExpression_def)
qed

theorem buildRuleExpression_record_witness:
  "buildRuleExpression int_toString
     (Operation ''<'' [Variable ''age'' TNumber, Literal (VNumber 18) TNumber] TBoolean) (''r1'', 5) =
     ([], Inr \<lparr>id_rule = ''r1'', priority = 5, source = ''(age < 18)'',
                tree = Operation ''<'' [Variable ''age'' TNumber, Literal (VNumber 18) TNumber] TBoolean\<rparr>)"
proof -
  have r: "recognized (Operation ''<'' [Variable ''age'' TNumber, Literal (VNumber (18::int)) TNumber] TBoolean)"
    by simp
  have s: "buildSource int_toString
      (Operation ''<'' [Variable ''age'' TNumber, Literal (VNumber 18) TNumber] TBoolean) =
      ([], Inr ''(age < 18)'')"
    by (simp add: slice_def isUnaryOperator_def console_assert_def int_toString_def)
  from buildRuleExpression_record [OF r, of int_toString "''r1''" 5] s show ?thesis
    by simp
qed

subsection \<open>The compiler reads the structure only\<close>

text \<open>
  Claim C8. Two trees with the same \<open>skeleton\<close>, that is, two trees that differ at most in
  \<open>return\<close> fields and in operands of operations past the second, have the same result
  under \<open>buildSource\<close>: the same text or error, and the same console output. The result is
  a function of the tree, so two calls on one tree agree.
\<close>

theorem buildSource_structural:
  assumes "skeleton e1 = skeleton e2"
  shows "buildSource toString e1 = buildSource toString e2"
proof -
  have "buildSource toString e1 = buildSource toString (skeleton e1)"
    by (simp add: skeleton_same(1))
  also have "\<dots> = buildSource toString (skeleton e2)"
    using assms by simp
  also have "\<dots> = buildSource toString e2"
    by (simp add: skeleton_same(1))
  finally show ?thesis .
qed

theorem buildSource_structural_witness:
  "buildSource int_toString
     (Operation ''*'' [Variable ''x'' TNumber, Literal (VNumber 2) TNumber, Variable ''y'' TString] TNumber) =
   buildSource int_toString
     (Operation ''*'' [Variable ''x'' TBoolean, Literal (VNumber 2) TString] TBoolean)"
proof -
  have h: "skeleton (Operation ''*'' [Variable ''x'' TNumber, Literal (VNumber (2::int)) TNumber,
        Variable ''y'' TString] TNumber) =
      skeleton (Operation ''*'' [Variable ''x'' TBoolean, Literal (VNumber 2) TString] TBoolean)"
    by (simp add: slice_def)
  from buildSource_structural [OF h] show ?thesis .
qed

subsection \<open>Termination\<close>

text \<open>
  Claim C10. The recursion of \<open>buildSource\<close> is never deeper than the number of nodes of
  the tree: with that much fuel, the bounded compiler returns, and it returns the result of
  \<open>buildSource\<close>.
\<close>

theorem buildSource_terminates:
  assumes "nodes e \<le> fuel"
  shows "buildSource_fuel fuel toString e = Some (buildSource toString e)"
  using assms by (rule fuel_enough(1))

theorem buildSource_terminates_witness:
  "buildSource_fuel 3 int_toString
     (Operation ''<'' [Variable ''age'' TNumber, Literal (VNumber 18) TNumber] TBoolean) =
     Some ([], Inr ''(age < 18)'')"
proof -
  have n: "nodes (Operation ''<'' [Variable ''age'' TNumber, Literal (VNumber (18::int)) TNumber] TBoolean) \<le> 3"
    by simp
  have s: "buildSource int_toString
      (Operation ''<'' [Variable ''age'' TNumber, Literal (VNumber 18) TNumber] TBoolean) =
      ([], Inr ''(age < 18)'')"
    by (simp add: slice_def isUnaryOperator_def console_assert_def int_toString_def)
  from buildSource_terminates [OF n, of int_toString] s show ?thesis by simp
qed

end
